theory Spec2Isabelle
  imports Main "HOL-Library.Sublist"
begin

section \<open>Python values used by \<open>whisper/transcript.py\<close>\<close>

text \<open>
  A Python \<open>str\<close> is a sequence of Unicode code points, a \<open>bytes\<close> object a sequence of
  8-bit values. Code points are natural numbers; bytes are HOL characters (which are exactly
  the 8-bit values). A string literal of the source is written \<open>lit ''...''\<close>.
\<close>

type_synonym pystr = "nat list"
type_synonym bytes = "char list"

abbreviation lit :: "string \<Rightarrow> pystr" where
  "lit s \<equiv> map of_char s"

text \<open>
  The exceptions the two functions can end with. \<open>FileNotFoundError\<close> and \<open>Exception\<close>
  carry the message built by the source; \<open>OSError\<close> is whatever \<open>subprocess.Popen\<close> itself
  raises when the child cannot be started, \<open>S3Failure\<close> whatever a boto3 call raises.
\<close>

datatype exn =
    KeyError
  | IndexError
  | TypeError
  | FileNotFoundError pystr
  | UnicodeDecodeError
  | Exception pystr
  | OSError pystr
  | S3Failure pystr
  | InvalidParameter

subsection \<open>\<open>str.strip\<close>, \<open>str.replace\<close>, \<open>str(int)\<close>\<close>

text \<open>
  \<open>str.strip()\<close> without argument removes the characters for which \<open>str.isspace\<close> holds
  from both ends. These are the code points CPython lists in \<open>_PyUnicode_IsWhitespace\<close>.
\<close>

definition isspace :: "nat \<Rightarrow> bool" where
  "isspace c \<longleftrightarrow>
     (0x09 \<le> c \<and> c \<le> 0x0D) \<or> (0x1C \<le> c \<and> c \<le> 0x20) \<or> c = 0x85 \<or> c = 0xA0 \<or>
     c = 0x1680 \<or> (0x2000 \<le> c \<and> c \<le> 0x200A) \<or> c = 0x2028 \<or> c = 0x2029 \<or>
     c = 0x202F \<or> c = 0x205F \<or> c = 0x3000"

definition lstrip :: "pystr \<Rightarrow> pystr" where
  "lstrip s = dropWhile isspace s"

definition rstrip :: "pystr \<Rightarrow> pystr" where
  "rstrip s = rev (dropWhile isspace (rev s))"

definition strip :: "pystr \<Rightarrow> pystr" where
  "strip s = rstrip (lstrip s)"

text \<open>
  \<open>s.replace(old, new)\<close>: the occurrences of \<open>old\<close> are found scanning from the left, each
  search starting behind the previous occurrence, and all of them are replaced in this one
  pass. For an empty \<open>old\<close> Python inserts \<open>new\<close> before every character and at the end.
\<close>

function replace_from :: "pystr \<Rightarrow> pystr \<Rightarrow> pystr \<Rightarrow> pystr" where
  "replace_from old new [] = []"
| "replace_from old new (c # cs) =
     (if old \<noteq> [] \<and> prefix old (c # cs)
      then new @ replace_from old new (drop (length old) (c # cs))
      else c # replace_from old new cs)"
  by pat_completeness auto
termination
  by (relation "measure (\<lambda>(old, new, s). length s)") (auto simp: neq_Nil_conv)

definition replace :: "pystr \<Rightarrow> pystr \<Rightarrow> pystr \<Rightarrow> pystr" where
  "replace s old new =
     (if old = [] then new @ concat (map (\<lambda>c. c # new) s) else replace_from old new s)"

fun digits :: "nat \<Rightarrow> pystr" where
  "digits n = (if n < 10 then [48 + n] else digits (n div 10) @ [48 + n mod 10])"

definition str_int :: "int \<Rightarrow> pystr" where
  "str_int i = (if i < 0 then lit ''-'' @ digits (nat (- i)) else digits (nat i))"

subsection \<open>\<open>bytes.decode('utf-8')\<close>\<close>

text \<open>
  The strict UTF-8 decoder: \<open>None\<close> stands for \<open>UnicodeDecodeError\<close>. A sequence is rejected
  when a lead byte is not one of \<open>00..7F\<close>, \<open>C2..F4\<close>, a continuation byte is missing or not
  in \<open>80..BF\<close>, the encoding is longer than needed, or the code point is a surrogate or lies
  above \<open>10FFFF\<close>.
\<close>

definition is_cont :: "char \<Rightarrow> bool" where
  "is_cont b \<longleftrightarrow> 0x80 \<le> (of_char b :: nat) \<and> (of_char b :: nat) < 0xC0"

definition cont_bits :: "char \<Rightarrow> nat" where
  "cont_bits b = of_char b - 0x80"

fun utf8_decode :: "bytes \<Rightarrow> pystr option" where
  "utf8_decode [] = Some []"
| "utf8_decode (b0 # bs) =
     (let n = (of_char b0 :: nat) in
      if n < 0x80 then map_option ((#) n) (utf8_decode bs)
      else if n < 0xC2 then None
      else if n < 0xE0 then
        (case bs of
           b1 # r \<Rightarrow>
             if is_cont b1
             then map_option ((#) ((n - 0xC0) * 64 + cont_bits b1)) (utf8_decode r)
             else None
         | _ \<Rightarrow> None)
      else if n < 0xF0 then
        (case bs of
           b1 # b2 # r \<Rightarrow>
             (let cp = (n - 0xE0) * 4096 + cont_bits b1 * 64 + cont_bits b2 in
              if is_cont b1 \<and> is_cont b2 \<and> 0x800 \<le> cp \<and> \<not> (0xD800 \<le> cp \<and> cp \<le> 0xDFFF)
              then map_option ((#) cp) (utf8_decode r)
              else None)
         | _ \<Rightarrow> None)
      else if n < 0xF5 then
        (case bs of
           b1 # b2 # b3 # r \<Rightarrow>
             (let cp = (n - 0xF0) * 262144 + cont_bits b1 * 4096 + cont_bits b2 * 64
                         + cont_bits b3 in
              if is_cont b1 \<and> is_cont b2 \<and> is_cont b3 \<and> 0x10000 \<le> cp \<and> cp \<le> 0x10FFFF
              then map_option ((#) cp) (utf8_decode r)
              else None)
         | _ \<Rightarrow> None)
      else None)"

subsection \<open>\<open>os.path.join\<close> and \<open>dict.get\<close>\<close>

text \<open>
  \<open>posixpath.join(a, *p)\<close>: a component that starts with the separator replaces the path
  built so far; otherwise it is appended, with a separator unless the path is empty or
  already ends with one.
\<close>

definition join2 :: "pystr \<Rightarrow> pystr \<Rightarrow> pystr" where
  "join2 path b =
     (if prefix (lit ''/'') b then b
      else if path = [] \<or> suffix (lit ''/'') path then path @ b
      else path @ lit ''/'' @ b)"

definition path_join :: "pystr \<Rightarrow> pystr list \<Rightarrow> pystr" where
  "path_join a p = foldl join2 a p"

definition dict_get :: "('k \<rightharpoonup> 'v) \<Rightarrow> 'k \<Rightarrow> 'v \<Rightarrow> 'v" where
  "dict_get d k dflt = (case d k of None \<Rightarrow> dflt | Some v \<Rightarrow> v)"

section \<open>The world around one invocation\<close>

text \<open>
  What the code reads and changes outside its own variables:
  \<^item> \<open>environ\<close>: the mapping \<open>os.environ\<close> of the running (parent) process;
  \<^item> \<open>dicts\<close>: the dictionaries allocated so far, addressed by their index, so that a
    dictionary made by \<open>os.environ.copy()\<close> is an object of its own;
  \<^item> \<open>files\<close>: \<open>os.path.exists\<close>;
  \<^item> \<open>spawned\<close>: the calls of \<open>subprocess.Popen\<close> made so far, oldest first;
  \<^item> \<open>objects\<close>: the objects held by the storage service, by bucket and key.
\<close>

datatype popen_args = Cmd pystr | Argv "pystr list"

record popen_call =
  popen_args :: popen_args
  popen_shell :: bool
  popen_env :: "pystr \<rightharpoonup> pystr"

record world =
  environ :: "pystr \<rightharpoonup> pystr"
  dicts :: "(pystr \<rightharpoonup> pystr) list"
  files :: "pystr \<Rightarrow> bool"
  spawned :: "popen_call list"
  objects :: "pystr \<times> pystr \<rightharpoonup> pystr"

text \<open>A reference to a dictionary object: \<open>os.environ\<close> itself, or an allocated one.\<close>

datatype dict_ref = Environ | Local nat

definition deref :: "world \<Rightarrow> dict_ref \<Rightarrow> (pystr \<rightharpoonup> pystr)" where
  "deref w r = (case r of Environ \<Rightarrow> environ w | Local i \<Rightarrow> dicts w ! i)"

definition dict_copy :: "dict_ref \<Rightarrow> world \<Rightarrow> dict_ref \<times> world" where
  "dict_copy r w = (Local (length (dicts w)), w\<lparr>dicts := dicts w @ [deref w r]\<rparr>)"

definition dict_setitem :: "dict_ref \<Rightarrow> pystr \<Rightarrow> pystr \<Rightarrow> world \<Rightarrow> world" where
  "dict_setitem r k v w =
     (case r of
        Environ \<Rightarrow> w\<lparr>environ := (environ w)(k \<mapsto> v)\<rparr>
      | Local i \<Rightarrow> w\<lparr>dicts := (dicts w)[i := (dicts w ! i)(k \<mapsto> v)]\<rparr>)"

text \<open>
  What the child process hands back through \<open>process.communicate()\<close> and
  \<open>process.returncode\<close>.
\<close>

record proc =
  returncode :: int
  stdout_data :: bytes
  stderr_data :: bytes

text \<open>
  The collaborators the code calls and does not implement. Each is an arbitrary function:
  \<^item> \<open>popen\<close>: the outcome of starting the given call on the given file system, either the
    exception raised by \<open>Popen\<close> or what the finished child returned;
  \<^item> \<open>download_file\<close>: for bucket, key and local file name, either the message of the
    exception raised or the file system after the download;
  \<^item> \<open>put_object\<close>: for bucket, key and body, the message of the exception raised, if any.
\<close>

record ext =
  popen :: "popen_call \<Rightarrow> (pystr \<Rightarrow> bool) \<Rightarrow> pystr + proc"
  download_file :: "pystr \<Rightarrow> pystr \<Rightarrow> pystr \<Rightarrow> (pystr \<Rightarrow> bool) \<Rightarrow> pystr + (pystr \<Rightarrow> bool)"
  put_object :: "pystr \<Rightarrow> pystr \<Rightarrow> pystr \<Rightarrow> pystr option"


section \<open>\<open>process_audio\<close>\<close>

text \<open>The local values of \<open>process_audio\<close> that depend on the arguments and the environment only.\<close>

definition model :: "pystr \<Rightarrow> pystr" where
  "model model_name = lit ''models/ggml-'' @ model_name @ lit ''.bin''"

definition task_root :: "world \<Rightarrow> pystr" where
  "task_root w = dict_get (deref w Environ) (lit ''LAMBDA_TASK_ROOT'') (lit ''.'')"

definition whisper_cli :: "world \<Rightarrow> pystr" where
  "whisper_cli w = path_join (task_root w) [lit ''bin'', lit ''whisper-cli'']"

definition bin_path :: "world \<Rightarrow> pystr" where
  "bin_path w = path_join (task_root w) [lit ''bin'']"

definition full_command :: "world \<Rightarrow> pystr \<Rightarrow> pystr \<Rightarrow> pystr" where
  "full_command w wav_file model_name =
     whisper_cli w @ lit '' -m '' @ model model_name @ lit '' -f '' @ wav_file @ lit '' -nt''"

definition model_not_found :: "pystr \<Rightarrow> pystr" where
  "model_not_found model_name =
     lit ''Model file not found: '' @ model model_name
     @ lit '' \<newline>\<newline>Download a model with this command:\<newline>\<newline>> bash ./models/download-ggml-model.sh ''
     @ model_name @ lit ''\<newline>\<newline>''"

text \<open>
  Lines 57 to 70: the environment of the child is a copy of \<open>os.environ\<close> whose
  \<open>LD_LIBRARY_PATH\<close> entry is then assigned, and \<open>Popen\<close> is called with the command
  line as one string and \<open>shell=True\<close>. The result is the call made and the world after it.
\<close>

definition make_env :: "world \<Rightarrow> dict_ref \<times> world" where
  "make_env w =
     (let (env, w1) = dict_copy Environ w;
          existing_ld_path = dict_get (deref w1 env) (lit ''LD_LIBRARY_PATH'') [];
          w2 = dict_setitem env (lit ''LD_LIBRARY_PATH'')
                 (if existing_ld_path \<noteq> [] then bin_path w1 @ lit '':'' @ existing_ld_path
                  else bin_path w1) w1
      in (env, w2))"

definition spawn :: "world \<Rightarrow> pystr \<Rightarrow> pystr \<Rightarrow> popen_call \<times> world" where
  "spawn w wav_file model_name =
     (let (env, w2) = make_env w;
          call = \<lparr>popen_args = Cmd (full_command w wav_file model_name),
                  popen_shell = True, popen_env = deref w2 env\<rparr>
      in (call, w2\<lparr>spawned := spawned w2 @ [call]\<rparr>))"

definition process_audio :: "ext \<Rightarrow> pystr \<Rightarrow> pystr \<Rightarrow> world \<Rightarrow> (exn + pystr) \<times> world" where
  "process_audio x wav_file model_name w =
     (if \<not> files w (model model_name) then
        (Inl (FileNotFoundError (model_not_found model_name)), w)
      else if \<not> files w wav_file then
        (Inl (FileNotFoundError (lit ''WAV file not found: '' @ wav_file)), w)
      else
        let (call, w3) = spawn w wav_file model_name
        in case popen x call (files w3) of
             Inl e \<Rightarrow> (Inl (OSError e), w3)
           | Inr process \<Rightarrow>
               if returncode process \<noteq> 0 then
                 (case (if stderr_data process \<noteq> [] then utf8_decode (stderr_data process)
                        else Some (lit ''Unknown error'')) of
                    None \<Rightarrow> (Inl UnicodeDecodeError, w3)
                  | Some error_msg \<Rightarrow>
                      (Inl (Exception (lit ''Error processing audio (exit code ''
                              @ str_int (returncode process) @ lit ''): '' @ error_msg)), w3))
               else
                 (case utf8_decode (stdout_data process) of
                    None \<Rightarrow> (Inl UnicodeDecodeError, w3)
                  | Some decoded_str \<Rightarrow>
                      (Inr (strip (replace (strip decoded_str) (lit ''[BLANK_AUDIO]'') [])), w3)))"

section \<open>\<open>lambda_handler\<close>\<close>

text \<open>
  The event is the JSON document the runtime decoded: \<open>None\<close>, a \<open>bool\<close>, a number (kept
  as its text, the handler never computes with one), a \<open>str\<close>, a \<open>list\<close> or a \<open>dict\<close> with
  \<open>str\<close> keys.
\<close>

datatype json =
    JNull
  | JBool bool
  | JNumber pystr
  | JStr pystr
  | JArr "json list"
  | JObj "(pystr \<times> json) list"

text \<open>
  Subscription \<open>v[k]\<close> with a \<open>str\<close> key and \<open>v[i]\<close> with an \<open>int\<close>: a \<open>dict\<close> raises
  \<open>KeyError\<close> for a key it does not hold (an \<open>int\<close> is never a key of a decoded JSON
  object), a \<open>list\<close> or \<open>str\<close> raises \<open>IndexError\<close> out of range (an index below zero
  counts from the end) and \<open>TypeError\<close> for a \<open>str\<close> index, everything else is not
  subscriptable.
\<close>

definition getitem_key :: "json \<Rightarrow> pystr \<Rightarrow> exn + json" where
  "getitem_key v k =
     (case v of
        JObj kvs \<Rightarrow> (case map_of kvs k of None \<Rightarrow> Inl KeyError | Some a \<Rightarrow> Inr a)
      | _ \<Rightarrow> Inl TypeError)"

definition in_range :: "'a list \<Rightarrow> int \<Rightarrow> bool" where
  "in_range xs i \<longleftrightarrow> - int (length xs) \<le> i \<and> i < int (length xs)"

definition position :: "'a list \<Rightarrow> int \<Rightarrow> nat" where
  "position xs i = nat (if 0 \<le> i then i else i + int (length xs))"

definition getitem_int :: "json \<Rightarrow> int \<Rightarrow> exn + json" where
  "getitem_int v i =
     (case v of
        JArr xs \<Rightarrow> if in_range xs i then Inr (xs ! position xs i) else Inl IndexError
      | JStr s \<Rightarrow> if in_range s i then Inr (JStr [s ! position s i]) else Inl IndexError
      | JObj kvs \<Rightarrow> Inl KeyError
      | _ \<Rightarrow> Inl TypeError)"

definition and_then :: "exn + 'a \<Rightarrow> ('a \<Rightarrow> exn + 'b) \<Rightarrow> exn + 'b" where
  "and_then r f = (case r of Inl e \<Rightarrow> Inl e | Inr a \<Rightarrow> f a)"

definition bucket_name :: "json \<Rightarrow> exn + json" where
  "bucket_name event =
     and_then (getitem_key event (lit ''Records'')) (\<lambda>records.
     and_then (getitem_int records 0) (\<lambda>record.
     and_then (getitem_key record (lit ''s3'')) (\<lambda>s3.
     and_then (getitem_key s3 (lit ''bucket'')) (\<lambda>bucket.
     getitem_key bucket (lit ''name'')))))"

definition object_key :: "json \<Rightarrow> exn + json" where
  "object_key event =
     and_then (getitem_key event (lit ''Records'')) (\<lambda>records.
     and_then (getitem_int records 0) (\<lambda>record.
     and_then (getitem_key record (lit ''s3'')) (\<lambda>s3.
     and_then (getitem_key s3 (lit ''object'')) (\<lambda>object.
     getitem_key object (lit ''key'')))))"

text \<open>
  \<open>json.dumps\<close> of a \<open>str\<close> (with the default \<open>ensure_ascii=True\<close>): the string in double
  quotes, where the quote, the backslash and every character outside \<open>' '..'~'\<close> are
  escaped; a code point above \<open>FFFF\<close> becomes a surrogate pair.
\<close>

definition hex_digit :: "nat \<Rightarrow> nat" where
  "hex_digit d = (if d < 10 then 48 + d else 87 + d)"

definition hex4 :: "nat \<Rightarrow> pystr" where
  "hex4 n = [hex_digit (n div 4096 mod 16), hex_digit (n div 256 mod 16),
             hex_digit (n div 16 mod 16), hex_digit (n mod 16)]"

definition escape_ascii :: "nat \<Rightarrow> pystr" where
  "escape_ascii c =
     (if c = 0x5C then [0x5C, 0x5C]
      else if c = 0x22 then [0x5C, 0x22]
      else if c = 0x08 then [0x5C] @ lit ''b''
      else if c = 0x0C then [0x5C] @ lit ''f''
      else if c = 0x0A then [0x5C] @ lit ''n''
      else if c = 0x0D then [0x5C] @ lit ''r''
      else if c = 0x09 then [0x5C] @ lit ''t''
      else if 0x20 \<le> c \<and> c \<le> 0x7E then [c]
      else if c < 0x10000 then [0x5C] @ lit ''u'' @ hex4 c
      else [0x5C] @ lit ''u'' @ hex4 (0xD800 + (c - 0x10000) div 1024 mod 1024)
           @ [0x5C] @ lit ''u'' @ hex4 (0xDC00 + (c - 0x10000) mod 1024))"

definition json_dumps :: "pystr \<Rightarrow> pystr" where
  "json_dumps s = [0x22] @ concat (map escape_ascii s) @ [0x22]"

record response =
  statusCode :: int
  body :: pystr

text \<open>
  The two calls on the storage client. A successful \<open>put_object\<close> replaces whatever the
  bucket held under the key.
\<close>

definition s3_download_file :: "ext \<Rightarrow> pystr \<Rightarrow> pystr \<Rightarrow> pystr \<Rightarrow> world \<Rightarrow> exn + world" where
  "s3_download_file x b k filename w =
     (case download_file x b k filename (files w) of
        Inl e \<Rightarrow> Inl (S3Failure e)
      | Inr fs \<Rightarrow> Inr (w\<lparr>files := fs\<rparr>))"

definition s3_put_object :: "ext \<Rightarrow> pystr \<Rightarrow> pystr \<Rightarrow> pystr \<Rightarrow> world \<Rightarrow> exn + world" where
  "s3_put_object x b k data w =
     (case put_object x b k data of
        Some e \<Rightarrow> Inl (S3Failure e)
      | None \<Rightarrow> Inr (w\<lparr>objects := (objects w)((b, k) \<mapsto> data)\<rparr>))"

text \<open>
  The handler. The two \<open>print\<close> calls write to the log only and are left out;
  \<open>json.dumps(event)\<close> cannot fail on a decoded JSON document. boto3 checks its parameters
  against the service description before it sends anything, so with a bucket name or an
  object key that is not a \<open>str\<close> the download raises; \<open>InvalidParameter\<close> stands for that
  exception.
\<close>

definition lambda_handler :: "ext \<Rightarrow> json \<Rightarrow> world \<Rightarrow> (exn + response) \<times> world" where
  "lambda_handler x event w =
     (case bucket_name event of
        Inl e \<Rightarrow> (Inl e, w)
      | Inr bucket \<Rightarrow>
     (case object_key event of
        Inl e \<Rightarrow> (Inl e, w)
      | Inr key \<Rightarrow>
     (let audio_file = lit ''/tmp/audio.wav'' in
      case (bucket, key) of
        (JStr b, JStr k) \<Rightarrow>
          (case s3_download_file x b k audio_file w of
             Inl e \<Rightarrow> (Inl e, w)
           | Inr w1 \<Rightarrow>
               if \<not> files w1 audio_file then
                 (Inl (FileNotFoundError (lit ''WAV file not found: '' @ audio_file)), w1)
               else
                 (case process_audio x audio_file (lit ''tiny'') w1 of
                    (Inl e, w2) \<Rightarrow> (Inl e, w2)
                  | (Inr result, w2) \<Rightarrow>
                      (let result_key = lit ''processed/'' @ k @ lit ''.json'' in
                       case s3_put_object x b result_key (json_dumps result) w2 of
                         Inl e \<Rightarrow> (Inl e, w2)
                       | Inr w3 \<Rightarrow>
                           (Inr \<lparr>statusCode = 200,
                                 body = json_dumps (lit ''Processing complete'')\<rparr>, w3))))
      | _ \<Rightarrow> (Inl InvalidParameter, w))))"

section \<open>How the shell reads the command line\<close>





section \<open>Auxiliary definitions and sample inputs\<close>

text \<open>
  The environment handed to the child, written as a function of the parent's environment.
\<close>

definition child_env_of :: "world \<Rightarrow> (pystr \<rightharpoonup> pystr)" where
  "child_env_of w = (environ w)(lit ''LD_LIBRARY_PATH'' \<mapsto>
            (if dict_get (environ w) (lit ''LD_LIBRARY_PATH'') [] \<noteq> []
             then bin_path w @ lit '':'' @ dict_get (environ w) (lit ''LD_LIBRARY_PATH'') []
             else bin_path w))"

text \<open>
  A concrete world (the model \<open>tiny\<close> and the staged audio file exist, \<open>LAMBDA_TASK_ROOT\<close> is
  unset) and concrete collaborators: an engine that succeeds, one that reports silence only,
  one that reports music and silence, one whose output nests the marker, one that fails with a diagnostic and one that fails
  with bytes that are not UTF-8.
\<close>

definition sample_world :: world where
  "sample_world =
     \<lparr>environ = [lit ''LD_LIBRARY_PATH'' \<mapsto> lit ''/opt/lib'', lit ''HOME'' \<mapsto> lit ''/root''],
      dicts = [],
      files = (\<lambda>p. p = lit ''models/ggml-tiny.bin'' \<or> p = lit ''/tmp/audio.wav''),
      spawned = [],
      objects = Map.empty\<rparr>"

definition sample_ext :: ext where
  "sample_ext =
     \<lparr>popen = (\<lambda>c fs. Inr \<lparr>returncode = 0, stdout_data = '' [BLANK_AUDIO] hello [BLANK_AUDIO]\<newline>'',
                              stderr_data = []\<rparr>),
      download_file = (\<lambda>b k f fs. Inr (\<lambda>p. p = f \<or> fs p)),
      put_object = (\<lambda>b k d. None)\<rparr>"

definition silent_ext :: ext where
  "silent_ext =
     \<lparr>popen = (\<lambda>c fs. Inr \<lparr>returncode = 0, stdout_data = ''[BLANK_AUDIO][BLANK_AUDIO]\<newline>'',
                              stderr_data = []\<rparr>),
      download_file = (\<lambda>b k f fs. Inr (\<lambda>p. p = f \<or> fs p)),
      put_object = (\<lambda>b k d. None)\<rparr>"

definition music_ext :: ext where
  "music_ext =
     \<lparr>popen = (\<lambda>c fs. Inr \<lparr>returncode = 0, stdout_data = ''[Music] [BLANK_AUDIO]\<newline>'',
                              stderr_data = []\<rparr>),
      download_file = (\<lambda>b k f fs. Inr (\<lambda>p. p = f \<or> fs p)),
      put_object = (\<lambda>b k d. None)\<rparr>"

definition nested_ext :: ext where
  "nested_ext =
     \<lparr>popen = (\<lambda>c fs. Inr \<lparr>returncode = 0, stdout_data = ''[BLANK_[BLANK_AUDIO]AUDIO]'',
                              stderr_data = []\<rparr>),
      download_file = (\<lambda>b k f fs. Inr (\<lambda>p. p = f \<or> fs p)),
      put_object = (\<lambda>b k d. None)\<rparr>"

definition failing_ext :: ext where
  "failing_ext =
     \<lparr>popen = (\<lambda>c fs. Inr \<lparr>returncode = 1, stdout_data = [], stderr_data = ''decode failed''\<rparr>),
      download_file = (\<lambda>b k f fs. Inr (\<lambda>p. p = f \<or> fs p)),
      put_object = (\<lambda>b k d. None)\<rparr>"

definition garbled_ext :: ext where
  "garbled_ext =
     \<lparr>popen = (\<lambda>c fs. Inr \<lparr>returncode = 1, stdout_data = [], stderr_data = [CHR 0xFF]\<rparr>),
      download_file = (\<lambda>b k f fs. Inr (\<lambda>p. p = f \<or> fs p)),
      put_object = (\<lambda>b k d. None)\<rparr>"

text \<open>
  Following a path of keys through nested objects of an event: the value found, a key that
  an object on the path does not hold, or a value on the path that is not an object.
\<close>

datatype lookup = Found json | Missing | NotObject

fun walk :: "json \<Rightarrow> pystr list \<Rightarrow> lookup" where
  "walk v [] = Found v"
| "walk v (k # ks) =
     (case v of
        JObj kvs \<Rightarrow> (case map_of kvs k of None \<Rightarrow> Missing | Some a \<Rightarrow> walk a ks)
      | _ \<Rightarrow> NotObject)"

definition raised :: "lookup \<Rightarrow> exn + json" where
  "raised l = (case l of Found v \<Rightarrow> Inr v | Missing \<Rightarrow> Inl KeyError | NotObject \<Rightarrow> Inl TypeError)"

text \<open>
  Events of the shape of a storage notification, with the given content of \<open>s3\<close> in their
  single record; one complete, one whose object has no \<open>key\<close>, one without records, one
  whose only record is \<open>null\<close>; and
  the sample world after the audio file has been staged.
\<close>

definition event_of :: "(pystr \<times> json) list \<Rightarrow> json" where
  "event_of s3 = JObj [(lit ''Records'', JArr [JObj [(lit ''s3'', JObj s3)]])]"


definition event_without_key :: json where
  "event_without_key =
     event_of [(lit ''bucket'', JObj [(lit ''name'', JStr (lit ''b''))]),
               (lit ''object'', JObj [(lit ''size'', JNumber (lit ''1024''))])]"

definition event_without_records :: json where
  "event_without_records = JObj [(lit ''Records'', JArr [])]"

definition event_null_record :: json where
  "event_null_record = JObj [(lit ''Records'', JArr [JNull])]"


text \<open>The sample world with the runtime root and a library search path set, as in the hosted runtime.\<close>

definition lambda_world :: world where
  "lambda_world =
     sample_world\<lparr>environ := [lit ''LAMBDA_TASK_ROOT'' \<mapsto> lit ''/var/task'',
                                lit ''LD_LIBRARY_PATH'' \<mapsto> lit ''/var/lang/lib'']\<rparr>"


section \<open>Facts about \<open>process_audio\<close>\<close>

subsection \<open>The call of \<open>Popen\<close>\<close>

lemma task_root_simp: "task_root w = dict_get (environ w) (lit ''LAMBDA_TASK_ROOT'') (lit ''.'')"
  by (simp add: task_root_def deref_def)

lemma make_env_eq:
  "make_env w =
     (Local (length (dicts w)),
      w\<lparr>dicts := dicts w @
         [(environ w)(lit ''LD_LIBRARY_PATH'' \<mapsto>
            (if dict_get (environ w) (lit ''LD_LIBRARY_PATH'') [] \<noteq> []
             then bin_path w @ lit '':'' @ dict_get (environ w) (lit ''LD_LIBRARY_PATH'') []
             else bin_path w))]\<rparr>)"
  by (simp add: make_env_def dict_copy_def dict_setitem_def deref_def Let_def bin_path_def
      task_root_def)

lemma spawn_eq:
  "spawn w wav_file model_name =
     (\<lparr>popen_args = Cmd (full_command w wav_file model_name), popen_shell = True,
        popen_env = child_env_of w\<rparr>,
      w\<lparr>dicts := dicts w @ [child_env_of w],
        spawned := spawned w @ [\<lparr>popen_args = Cmd (full_command w wav_file model_name),
           popen_shell = True, popen_env = child_env_of w\<rparr>]\<rparr>)"
  by (simp add: spawn_def make_env_eq deref_def child_env_of_def Let_def)

lemma process_audio_world:
  "snd (process_audio x wav_file model_name w) =
     (if files w (model model_name) \<and> files w wav_file then snd (spawn w wav_file model_name) else w)"
  by (simp add: process_audio_def split: prod.splits sum.splits option.splits)

lemma files_spawn: "files (snd (spawn w wav m)) = files w"
  by (simp add: spawn_eq)

lemma process_audio_run:
  assumes "files w (model m)" and "files w wav"
  shows "process_audio x wav m w =
     (case popen x (fst (spawn w wav m)) (files w) of
        Inl e \<Rightarrow> (Inl (OSError e), snd (spawn w wav m))
      | Inr process \<Rightarrow>
          if returncode process \<noteq> 0 then
            (case (if stderr_data process \<noteq> [] then utf8_decode (stderr_data process)
                   else Some (lit ''Unknown error'')) of
               None \<Rightarrow> (Inl UnicodeDecodeError, snd (spawn w wav m))
             | Some error_msg \<Rightarrow>
                 (Inl (Exception (lit ''Error processing audio (exit code ''
                         @ str_int (returncode process) @ lit ''): '' @ error_msg)),
                  snd (spawn w wav m)))
          else
            (case utf8_decode (stdout_data process) of
               None \<Rightarrow> (Inl UnicodeDecodeError, snd (spawn w wav m))
             | Some decoded_str \<Rightarrow>
                 (Inr (strip (replace (strip decoded_str) (lit ''[BLANK_AUDIO]'') [])),
                  snd (spawn w wav m))))"
  using assms unfolding process_audio_def
  by (simp only: if_False if_True not_True_eq_False not_False_eq_True split_beta Let_def files_spawn)

lemma path_join_unset:
  "path_join (lit ''.'') [lit ''bin'', lit ''whisper-cli''] = lit ''./bin/whisper-cli''"
  "path_join (lit ''.'') [lit ''bin''] = lit ''./bin''"
  by (simp_all add: path_join_def join2_def suffix_to_prefix)

lemma task_root_unset_dot:
  "environ w (lit ''LAMBDA_TASK_ROOT'') = None \<Longrightarrow> task_root w = lit ''.''"
  by (simp add: task_root_simp dict_get_def)

lemma whisper_cli_unset:
  assumes "environ w (lit ''LAMBDA_TASK_ROOT'') = None"
  shows "whisper_cli w = lit ''./bin/whisper-cli''"
  unfolding whisper_cli_def task_root_unset_dot [OF assms] by (rule path_join_unset)

lemma bin_path_unset:
  assumes "environ w (lit ''LAMBDA_TASK_ROOT'') = None"
  shows "bin_path w = lit ''./bin''"
  unfolding bin_path_def task_root_unset_dot [OF assms] by (rule path_join_unset)

lemma bin_path_join: "bin_path w = join2 (task_root w) (lit ''bin'')"
  by (simp add: bin_path_def path_join_def)

lemma whisper_cli_join: "whisper_cli w = join2 (bin_path w) (lit ''whisper-cli'')"
  by (simp add: whisper_cli_def bin_path_def path_join_def)

lemma task_root_case:
  "task_root w = (case environ w (lit ''LAMBDA_TASK_ROOT'') of None \<Rightarrow> lit ''.'' | Some r \<Rightarrow> r)"
  by (simp add: task_root_simp dict_get_def split: option.splits)

lemma lambda_files:
  "files lambda_world (model (lit ''tiny''))" "files lambda_world (lit ''/tmp/audio.wav'')"
  by (simp_all add: lambda_world_def sample_world_def model_def)

lemma sample_files:
  "files sample_world (model (lit ''tiny''))" "files sample_world (lit ''/tmp/audio.wav'')"
  by (simp_all add: sample_world_def model_def)

lemma sample_root: "environ sample_world (lit ''LAMBDA_TASK_ROOT'') = None"
  by (simp add: sample_world_def)

subsection \<open>Messages\<close>

lemma sublist_mid: "s = p @ t @ q \<Longrightarrow> sublist t s"
  by (auto simp: sublist_def)

lemma model_not_found_hint:
  "sublist (lit ''bash ./models/download-ggml-model.sh '' @ m) (model_not_found m)"
proof -
  have "model_not_found m =
      (lit ''Model file not found: '' @ model m
         @ lit '' \<newline>\<newline>Download a model with this command:\<newline>\<newline>> '')
      @ (lit ''bash ./models/download-ggml-model.sh '' @ m) @ lit ''\<newline>\<newline>''"
    by (simp add: model_not_found_def)
  then show ?thesis by (rule sublist_mid)
qed

subsection \<open>Stripping and removing the marker\<close>

lemma strip_ends:
  assumes "strip s \<noteq> []"
  shows "\<not> isspace (hd (strip s)) \<and> \<not> isspace (last (strip s))"
proof -
  let ?t = "dropWhile isspace s"
  let ?u = "dropWhile isspace (rev ?t)"
  have st: "strip s = rev ?u" by (simp add: strip_def lstrip_def rstrip_def)
  with assms have u: "?u \<noteq> []" by simp
  then have "\<not> isspace (hd ?u)" by (rule hd_dropWhile)
  then have l: "\<not> isspace (last (strip s))" using u by (simp add: st last_rev)
  have t: "?t \<noteq> []"
  proof
    assume a: "?t = []"
    have "?u = []" unfolding a by simp
    with u show False by blast
  qed
  then have ht: "\<not> isspace (hd ?t)" by (rule hd_dropWhile)
  have "rev ?t = takeWhile isspace (rev ?t) @ ?u" by simp
  with u have "last ?u = last (rev ?t)" by (metis last_appendR)
  then have "last ?u = hd ?t" using t by (simp add: last_rev)
  with ht have "\<not> isspace (hd (strip s))" using u by (simp add: st hd_rev)
  with l show ?thesis by blast
qed

lemma rstrip_decomp: "\<exists>ws. s = rstrip s @ ws \<and> (\<forall>c\<in>set ws. isspace c)"
proof -
  have "rev (takeWhile isspace (rev s) @ dropWhile isspace (rev s)) = rev (rev s)"
    by (simp only: takeWhile_dropWhile_id)
  then have "rev (dropWhile isspace (rev s)) @ rev (takeWhile isspace (rev s)) = s"
    by (simp only: rev_append rev_rev_ident)
  then have "s = rstrip s @ rev (takeWhile isspace (rev s))" by (simp only: rstrip_def)
  moreover have "\<forall>c\<in>set (rev (takeWhile isspace (rev s))). isspace c"
    by (auto dest: set_takeWhileD)
  ultimately show ?thesis by blast
qed

lemma replace_from_partial_aux:
  assumes "new = []" and "u \<noteq> []" and "prefix u (replace_from old new s)"
  shows "prefix u s \<or> (\<exists>v. strict_prefix v u \<and> prefix (v @ old) s)"
  using assms
proof (induction old new s arbitrary: u rule: replace_from.induct)
  case (1 old new)
  then show ?case by simp
next
  case (2 old new c cs)
  note new = "2.prems"(1) and une = "2.prems"(2) and pre = "2.prems"(3)
  show ?case
  proof (cases "old \<noteq> [] \<and> prefix old (c # cs)")
    case True
    with une have "strict_prefix [] u \<and> prefix ([] @ old) (c # cs)"
      by (auto simp: strict_prefix_def)
    then show ?thesis by blast
  next
    case False
    with pre new have p: "prefix u (c # replace_from old new cs)" by simp
    from une obtain a u' where u: "u = a # u'" by (cases u) auto
    with p have a: "a = c" and p': "prefix u' (replace_from old new cs)" by simp_all
    show ?thesis
    proof (cases "u' = []")
      case True
      with u a show ?thesis by simp
    next
      case ne: False
      from "2.IH"(2) [OF False new ne p']
      consider "prefix u' cs" | v where "strict_prefix v u'" "prefix (v @ old) cs" by blast
      then show ?thesis
      proof cases
        case 1
        with u a show ?thesis by simp
      next
        case 2
        then have "strict_prefix (c # v) u \<and> prefix ((c # v) @ old) (c # cs)"
          using u a by simp
        then show ?thesis by blast
      qed
    qed
  qed
qed

lemma replace_from_partial:
  assumes "u \<noteq> []" and "prefix u (replace_from t [] s)"
  shows "prefix u s \<or> (\<exists>v. strict_prefix v u \<and> prefix (v @ t) s)"
  using replace_from_partial_aux [OF refl assms] .

lemma replace_from_joined_aux:
  assumes "new = []" and "old \<noteq> []" and "sublist old (replace_from old new s)"
  shows "\<exists>p. p \<noteq> [] \<and> strict_prefix p old \<and> sublist (p @ old) s"
  using assms
proof (induction old new s rule: replace_from.induct)
  case (1 old new)
  then show ?case by simp
next
  case (2 old new c cs)
  note new = "2.prems"(1) and one = "2.prems"(2) and sub = "2.prems"(3)
  show ?case
  proof (cases "old \<noteq> [] \<and> prefix old (c # cs)")
    case True
    with sub new have "sublist old (replace_from old new (drop (length old) (c # cs)))"
      by simp
    from "2.IH"(1) [OF True new one this]
    obtain p where p: "p \<noteq> []" "strict_prefix p old"
      "sublist (p @ old) (drop (length old) (c # cs))" by blast
    from p(3) have "sublist (p @ old) (c # cs)"
      by (meson sublist_drop sublist_order.order_trans)
    with p(1,2) show ?thesis by blast
  next
    case False
    with sub have "sublist old (c # replace_from old new cs)" by simp
    then consider "prefix old (c # replace_from old new cs)" | "sublist old (replace_from old new cs)"
      by (auto simp: sublist_Cons_right)
    then show ?thesis
    proof cases
      case 2
      from "2.IH"(2) [OF False new one this]
      obtain p where "p \<noteq> []" "strict_prefix p old" "sublist (p @ old) cs" by blast
      then show ?thesis by (auto simp: sublist_Cons_right)
    next
      case 1
      from one obtain a t' where t: "old = a # t'" by (cases old) auto
      with 1 new have a: "a = c" and p': "prefix t' (replace_from old [] cs)" by auto
      have ne: "t' \<noteq> []"
      proof
        assume "t' = []"
        with t a have "prefix old (c # cs)" by simp
        with False one show False by simp
      qed
      from replace_from_partial [OF ne p']
      consider "prefix t' cs" | v where "strict_prefix v t'" "prefix (v @ old) cs" by blast
      then show ?thesis
      proof cases
        case 1
        with t a have "prefix old (c # cs)" by simp
        with False one show ?thesis by simp
      next
        case 2
        then have "c # v \<noteq> [] \<and> strict_prefix (c # v) old \<and> prefix ((c # v) @ old) (c # cs)"
          using t a by simp
        then show ?thesis by (meson prefix_imp_sublist)
      qed
    qed
  qed
qed

lemma replace_from_joined:
  assumes "t \<noteq> []" and "sublist t (replace_from t [] s)"
  shows "\<exists>p. p \<noteq> [] \<and> strict_prefix p t \<and> sublist (p @ t) s"
  using replace_from_joined_aux [OF refl assms] .

lemma sublist_strip: "sublist (strip s) s"
proof -
  obtain ws where "lstrip s = rstrip (lstrip s) @ ws" using rstrip_decomp by blast
  then have "prefix (strip s) (lstrip s)" unfolding strip_def by (metis prefixI)
  then have "sublist (strip s) (lstrip s)" by (rule prefix_imp_sublist)
  moreover have "suffix (lstrip s) s" unfolding lstrip_def by (rule suffix_dropWhile)
  then have "sublist (lstrip s) s" by (rule suffix_imp_sublist)
  ultimately show ?thesis by (rule sublist_order.order_trans)
qed

lemma no_marker_left:
  assumes "\<not> (\<exists>p. p \<noteq> [] \<and> strict_prefix p (lit ''[BLANK_AUDIO]'')
              \<and> sublist (p @ lit ''[BLANK_AUDIO]'') s)"
  shows "\<not> sublist (lit ''[BLANK_AUDIO]'') (strip (replace (strip s) (lit ''[BLANK_AUDIO]'') []))"
proof
  let ?t = "lit ''[BLANK_AUDIO]''"
  assume "sublist ?t (strip (replace (strip s) ?t []))"
  then have "sublist ?t (replace (strip s) ?t [])"
    using sublist_strip by (rule sublist_order.order_trans)
  moreover have ne: "?t \<noteq> []" by simp
  then have "replace (strip s) ?t [] = replace_from ?t [] (strip s)"
    by (simp only: replace_def if_False)
  ultimately have "sublist ?t (replace_from ?t [] (strip s))" by (simp only:)
  from replace_from_joined [OF ne this]
  obtain p where p: "p \<noteq> []" "strict_prefix p ?t" "sublist (p @ ?t) (strip s)" by blast
  from p(3) sublist_strip have "sublist (p @ ?t) s" by (rule sublist_order.order_trans)
  with p(1,2) assms show False by blast
qed

lemma joined_code:
  "(\<exists>p. p \<noteq> [] \<and> strict_prefix p t \<and> sublist (p @ t) s)
     \<longleftrightarrow> list_ex (\<lambda>p. p \<noteq> [] \<and> p \<noteq> t \<and> sublist (p @ t) s) (prefixes t)"
  by (auto simp: list_ex_iff strict_prefix_def in_set_prefixes)

lemma music_not_joined:
  "\<not> (\<exists>p. p \<noteq> [] \<and> strict_prefix p (lit ''[BLANK_AUDIO]'')
          \<and> sublist (p @ lit ''[BLANK_AUDIO]'') (lit ''[Music] [BLANK_AUDIO]\<newline>''))"
  unfolding joined_code by (simp add: sublist_Cons_right)

lemma replace_from_copies:
  assumes "T \<noteq> []"
  shows "replace_from T [] (concat (replicate n T)) = []"
proof (induction n)
  case 0
  show ?case by simp
next
  case (Suc n)
  from assms obtain t ts where T: "T = t # ts" by (cases T) auto
  have "replace_from T [] (t # (ts @ concat (replicate n T)))
          = replace_from T [] (drop (length T) (t # (ts @ concat (replicate n T))))"
    using assms by (simp add: T)
  also have "drop (length T) (t # (ts @ concat (replicate n T))) = concat (replicate n T)"
    by (simp add: T)
  finally show ?case using Suc by (simp add: T)
qed

lemma strip_all_space:
  assumes "\<forall>c\<in>set s. isspace c"
  shows "strip s = []"
proof -
  from assms have d: "dropWhile isspace s = []" by simp
  show ?thesis unfolding strip_def lstrip_def rstrip_def d by simp
qed

lemma strip_copies:
  assumes ws: "\<forall>c\<in>set (pre @ post). isspace c" and n: "0 < n"
    and T: "T \<noteq> []" "\<not> isspace (hd T)" "\<not> isspace (last T)"
  shows "strip (pre @ concat (replicate n T) @ post) = concat (replicate n T)"
proof -
  let ?X = "concat (replicate n T)"
  from ws have pre: "\<And>x. x \<in> set pre \<Longrightarrow> isspace x"
    and post: "\<And>x. x \<in> set post \<Longrightarrow> isspace x" by auto
  from n obtain k where k: "n = Suc k" by (cases n) auto
  from T obtain t ts where t: "T = t # ts" by (cases T) auto
  have front: "?X = t # (ts @ concat (replicate k T))" by (simp add: k t)
  have "replicate (Suc k) T = replicate k T @ [T]"
    by (simp add: replicate_append_same)
  then have rear: "?X = concat (replicate k T) @ T"
    by (simp only: k concat_append concat.simps append_Nil2)
  have l: "lstrip (pre @ ?X @ post) = ?X @ post"
  proof -
    have "dropWhile isspace (pre @ ?X @ post) = dropWhile isspace (?X @ post)"
      by (rule dropWhile_append2) (simp add: pre)
    also have "dropWhile isspace (?X @ post) = ?X @ post"
      using T(2) unfolding front by (simp add: t)
    finally show ?thesis by (simp add: lstrip_def)
  qed
  have "rstrip (?X @ post) = ?X"
  proof -
    from T obtain u us where u: "rev T = u # us" by (cases "rev T") auto
    with T have "\<not> isspace u" by (metis hd_rev list.sel(1))
    have "dropWhile isspace (rev (?X @ post)) = dropWhile isspace (rev post @ rev ?X)"
      by simp
    also have "dropWhile isspace (rev post @ rev ?X) = dropWhile isspace (rev ?X)"
      by (rule dropWhile_append2) (simp add: post)
    also have "rev ?X = u # (us @ rev (concat (replicate k T)))"
      by (subst rear) (simp add: u)
    also have "dropWhile isspace (u # (us @ rev (concat (replicate k T))))
                 = u # (us @ rev (concat (replicate k T)))"
      using \<open>\<not> isspace u\<close> by simp
    also have "u # (us @ rev (concat (replicate k T))) = rev ?X"
      by (subst rear) (simp add: u)
    finally show ?thesis by (simp add: rstrip_def)
  qed
  with l show ?thesis by (simp add: strip_def)
qed

lemma only_copies_empty:
  assumes ws: "\<forall>c\<in>set (pre @ post). isspace c"
    and T: "T \<noteq> []" "\<not> isspace (hd T)" "\<not> isspace (last T)"
  shows "strip (replace (strip (pre @ concat (replicate n T) @ post)) T []) = []"
proof (cases "n = 0")
  case True
  with ws have "\<forall>c\<in>set (pre @ concat (replicate n T) @ post). isspace c"
    by simp
  then have "strip (pre @ concat (replicate n T) @ post) = []"
    by (rule strip_all_space)
  then show ?thesis using T(1) by (simp add: replace_def strip_all_space)
next
  case False
  then have "0 < n" by simp
  with ws have "strip (pre @ concat (replicate n T) @ post) = concat (replicate n T)"
    using T by (rule strip_copies)
  then show ?thesis using T(1) by (simp add: replace_def replace_from_copies strip_all_space)
qed

lemma decode_sample:
  "utf8_decode '' [BLANK_AUDIO] hello [BLANK_AUDIO]\<newline>'' = Some (lit '' [BLANK_AUDIO] hello [BLANK_AUDIO]\<newline>'')"
  by simp

section \<open>Properties of \<open>process_audio\<close>\<close>

text \<open>
  C3. When no file exists at \<open>models/ggml-<name>.bin\<close>, \<open>process_audio\<close> raises
  \<open>FileNotFoundError\<close>, nothing else has happened, and the message contains the download
  command \<open>bash ./models/download-ggml-model.sh <name>\<close> for that model name.
\<close>

theorem process_audio_model_missing:
  assumes "\<not> files w (lit ''models/ggml-'' @ m @ lit ''.bin'')"
  shows "\<exists>msg. process_audio x wav m w = (Inl (FileNotFoundError msg), w)
     \<and> sublist (lit ''bash ./models/download-ggml-model.sh '' @ m) msg"
proof -
  from assms have "\<not> files w (model m)" by (simp add: model_def)
  then have "process_audio x wav m w = (Inl (FileNotFoundError (model_not_found m)), w)"
    by (simp add: process_audio_def)
  with model_not_found_hint show ?thesis by blast
qed
theorem process_audio_model_missing_witness:
  "\<not> files sample_world (lit ''models/ggml-'' @ lit ''base'' @ lit ''.bin'') \<and>
   (\<exists>msg. process_audio sample_ext (lit ''/tmp/audio.wav'') (lit ''base'') sample_world
            = (Inl (FileNotFoundError msg), sample_world)
     \<and> sublist (lit ''bash ./models/download-ggml-model.sh '' @ lit ''base'') msg)"
proof -
  have h: "\<not> files sample_world (lit ''models/ggml-'' @ lit ''base'' @ lit ''.bin'')"
    by (simp add: sample_world_def)
  from h process_audio_model_missing [OF h, of sample_ext "lit ''/tmp/audio.wav''"]
  show ?thesis by blast
qed
text \<open>
  C4. When the model file exists and the audio path does not, \<open>process_audio\<close> raises
  \<open>FileNotFoundError\<close> for the audio file and \<open>Popen\<close> has not been called: the list of
  spawned processes is what it was.
\<close>

theorem process_audio_audio_missing:
  assumes "files w (lit ''models/ggml-'' @ m @ lit ''.bin'')" and "\<not> files w p"
  shows "process_audio x p m w = (Inl (FileNotFoundError (lit ''WAV file not found: '' @ p)), w)
     \<and> spawned (snd (process_audio x p m w)) = spawned w"
  using assms by (simp add: process_audio_def model_def)
theorem process_audio_audio_missing_witness:
  "files sample_world (lit ''models/ggml-'' @ lit ''tiny'' @ lit ''.bin'') \<and>
   \<not> files sample_world (lit ''/tmp/missing.wav'') \<and>
   process_audio sample_ext (lit ''/tmp/missing.wav'') (lit ''tiny'') sample_world
     = (Inl (FileNotFoundError (lit ''WAV file not found: /tmp/missing.wav'')), sample_world) \<and>
   spawned (snd (process_audio sample_ext (lit ''/tmp/missing.wav'') (lit ''tiny'') sample_world))
     = []"
proof -
  have h1: "files sample_world (lit ''models/ggml-'' @ lit ''tiny'' @ lit ''.bin'')"
    by (simp add: sample_world_def)
  have h2: "\<not> files sample_world (lit ''/tmp/missing.wav'')"
    by (simp add: sample_world_def)
  have e: "spawned sample_world = []" by (simp add: sample_world_def)
  from process_audio_audio_missing [OF h1 h2, of sample_ext] h1 h2 e
  show ?thesis by simp
qed

text \<open>
  C9. When \<open>LAMBDA_TASK_ROOT\<close> is unset, the executable is \<open>./bin/whisper-cli\<close> and the
  directory put in front of the library search path is \<open>./bin\<close>; \<open>process_audio\<close> never
  ends with a \<open>KeyError\<close>, and when both files exist the one call of \<open>Popen\<close> carries that
  command and that library path.
\<close>

theorem task_root_unset:
  assumes "environ w (lit ''LAMBDA_TASK_ROOT'') = None"
  shows "whisper_cli w = lit ''./bin/whisper-cli'' \<and> bin_path w = lit ''./bin'' \<and>
     fst (process_audio x wav m w) \<noteq> Inl KeyError \<and>
     (files w (model m) \<and> files w wav \<longrightarrow>
        (\<exists>call. spawned (snd (process_audio x wav m w)) = spawned w @ [call] \<and>
           popen_args call =
             Cmd (lit ''./bin/whisper-cli'' @ lit '' -m '' @ model m @ lit '' -f ''
                  @ wav @ lit '' -nt'') \<and>
           popen_env call (lit ''LD_LIBRARY_PATH'') =
             Some (lit ''./bin'' @
               (case environ w (lit ''LD_LIBRARY_PATH'') of
                  None \<Rightarrow> [] | Some v \<Rightarrow> if v = [] then [] else lit '':'' @ v))))"
proof -
  note cli = whisper_cli_unset [OF assms] and bin = bin_path_unset [OF assms]
  have nokey: "fst (process_audio x wav m w) \<noteq> Inl KeyError"
    by (simp add: process_audio_def split: prod.splits sum.splits option.splits)
  have "files w (model m) \<and> files w wav \<longrightarrow>
        (\<exists>call. spawned (snd (process_audio x wav m w)) = spawned w @ [call] \<and>
           popen_args call =
             Cmd (lit ''./bin/whisper-cli'' @ lit '' -m '' @ model m @ lit '' -f ''
                  @ wav @ lit '' -nt'') \<and>
           popen_env call (lit ''LD_LIBRARY_PATH'') =
             Some (lit ''./bin'' @
               (case environ w (lit ''LD_LIBRARY_PATH'') of
                  None \<Rightarrow> [] | Some v \<Rightarrow> if v = [] then [] else lit '':'' @ v)))"
    by (simp add: process_audio_world spawn_eq child_env_of_def full_command_def cli bin
        dict_get_def split: option.splits)
  with cli bin nokey show ?thesis by blast
qed

theorem task_root_unset_witness:
  "environ sample_world (lit ''LAMBDA_TASK_ROOT'') = None \<and>
   whisper_cli sample_world = lit ''./bin/whisper-cli'' \<and>
   bin_path sample_world = lit ''./bin'' \<and>
   fst (process_audio sample_ext (lit ''/tmp/audio.wav'') (lit ''tiny'') sample_world)
     \<noteq> Inl KeyError \<and>
   (\<exists>call. spawned (snd (process_audio sample_ext (lit ''/tmp/audio.wav'') (lit ''tiny'')
                            sample_world)) = [call] \<and>
      popen_args call =
        Cmd (lit ''./bin/whisper-cli -m models/ggml-tiny.bin -f /tmp/audio.wav -nt'') \<and>
      popen_env call (lit ''LD_LIBRARY_PATH'') = Some (lit ''./bin:/opt/lib''))"
proof -
  have ld: "environ sample_world (lit ''LD_LIBRARY_PATH'') = Some (lit ''/opt/lib'')"
    by (simp add: sample_world_def)
  have e: "spawned sample_world = []" by (simp add: sample_world_def)
  from task_root_unset [OF sample_root, of sample_ext "lit ''/tmp/audio.wav''" "lit ''tiny''"]
    sample_files sample_root
  show ?thesis by (simp add: sample_world_def model_def)
qed

text \<open>
  C7. When \<open>LD_LIBRARY_PATH\<close> has the value \<open>v\<close> in the environment of the process, the
  environment passed to \<open>Popen\<close> is that environment with \<open>LD_LIBRARY_PATH\<close> set to the
  directory \<open>bin\<close> under the runtime root (\<open>LAMBDA_TASK_ROOT\<close>, or \<open>.\<close> when unset),
  followed by \<open>:\<close> and \<open>v\<close> when \<open>v\<close> is not empty; and the executable of the command
  line is \<open>whisper-cli\<close> in that same directory.
\<close>

theorem ld_library_path_prepended:
  assumes "files w (model m)" and "files w wav"
    and "environ w (lit ''LD_LIBRARY_PATH'') = Some v"
    and "dir = join2 (case environ w (lit ''LAMBDA_TASK_ROOT'') of
                        None \<Rightarrow> lit ''.'' | Some r \<Rightarrow> r) (lit ''bin'')"
  shows "\<exists>call. spawned (snd (process_audio x wav m w)) = spawned w @ [call] \<and>
     popen_env call =
       (environ w)(lit ''LD_LIBRARY_PATH'' \<mapsto> (if v \<noteq> [] then dir @ lit '':'' @ v else dir)) \<and>
     popen_args call =
       Cmd (join2 dir (lit ''whisper-cli'') @ lit '' -m '' @ model m @ lit '' -f '' @ wav
            @ lit '' -nt'')"
proof -
  have dir: "bin_path w = dir"
    unfolding assms(4) bin_path_join task_root_case ..
  have cli: "whisper_cli w = join2 dir (lit ''whisper-cli'')"
    unfolding whisper_cli_join dir ..
  from assms(1-3) show ?thesis
    by (simp add: process_audio_world spawn_eq child_env_of_def dict_get_def full_command_def
        cli dir)
qed

theorem ld_library_path_prepended_witness:
  "files lambda_world (model (lit ''tiny'')) \<and> files lambda_world (lit ''/tmp/audio.wav'') \<and>
   environ lambda_world (lit ''LD_LIBRARY_PATH'') = Some (lit ''/var/lang/lib'') \<and>
   join2 (case environ lambda_world (lit ''LAMBDA_TASK_ROOT'') of
            None \<Rightarrow> lit ''.'' | Some r \<Rightarrow> r) (lit ''bin'') = lit ''/var/task/bin'' \<and>
   (\<exists>call. spawned (snd (process_audio sample_ext (lit ''/tmp/audio.wav'') (lit ''tiny'')
                            lambda_world)) = [call] \<and>
      popen_env call (lit ''LD_LIBRARY_PATH'') = Some (lit ''/var/task/bin:/var/lang/lib'') \<and>
      popen_env call (lit ''LAMBDA_TASK_ROOT'') = Some (lit ''/var/task'') \<and>
      popen_args call =
        Cmd (lit ''/var/task/bin/whisper-cli -m models/ggml-tiny.bin -f /tmp/audio.wav -nt''))"
proof -
  have ld: "environ lambda_world (lit ''LD_LIBRARY_PATH'') = Some (lit ''/var/lang/lib'')"
    by (simp add: lambda_world_def)
  have dir: "lit ''/var/task/bin'' = join2 (case environ lambda_world (lit ''LAMBDA_TASK_ROOT'') of
            None \<Rightarrow> lit ''.'' | Some r \<Rightarrow> r) (lit ''bin'')"
    by (simp add: lambda_world_def join2_def suffix_to_prefix)
  have e: "spawned lambda_world = []" by (simp add: lambda_world_def sample_world_def)
  from ld_library_path_prepended [OF lambda_files ld dir, of sample_ext]
  obtain call where
    c: "spawned (snd (process_audio sample_ext (lit ''/tmp/audio.wav'') (lit ''tiny'')
                        lambda_world)) = spawned lambda_world @ [call]"
    and env: "popen_env call = (environ lambda_world)(lit ''LD_LIBRARY_PATH'' \<mapsto>
          (if lit ''/var/lang/lib'' \<noteq> [] then lit ''/var/task/bin'' @ lit '':'' @ lit ''/var/lang/lib''
           else lit ''/var/task/bin''))"
    and args: "popen_args call =
       Cmd (join2 (lit ''/var/task/bin'') (lit ''whisper-cli'') @ lit '' -m '' @ model (lit ''tiny'')
            @ lit '' -f '' @ lit ''/tmp/audio.wav'' @ lit '' -nt'')"
    by blast
  from c e have c': "spawned (snd (process_audio sample_ext (lit ''/tmp/audio.wav'') (lit ''tiny'')
                        lambda_world)) = [call]" by simp
  from env have l: "popen_env call (lit ''LD_LIBRARY_PATH'') = Some (lit ''/var/task/bin:/var/lang/lib'')"
    by simp
  from env have r: "popen_env call (lit ''LAMBDA_TASK_ROOT'') = Some (lit ''/var/task'')"
    by (simp add: lambda_world_def)
  from args have a: "popen_args call =
        Cmd (lit ''/var/task/bin/whisper-cli -m models/ggml-tiny.bin -f /tmp/audio.wav -nt'')"
    by (simp add: join2_def suffix_to_prefix model_def)
  from lambda_files ld dir [symmetric] c' l r a show ?thesis by blast
qed

text \<open>
  C10. \<open>process_audio\<close> leaves \<open>os.environ\<close> as it was, whether it returns or raises; the
  environment of a process it spawned agrees with \<open>os.environ\<close> on every variable other
  than \<open>LD_LIBRARY_PATH\<close>.
\<close>

theorem parent_environ_unchanged:
  "environ (snd (process_audio x wav m w)) = environ w \<and>
   (\<forall>call \<in> set (drop (length (spawned w)) (spawned (snd (process_audio x wav m w)))).
      \<forall>k. k \<noteq> lit ''LD_LIBRARY_PATH'' \<longrightarrow> popen_env call k = environ w k)"
  by (simp add: process_audio_world spawn_eq child_env_of_def)
theorem parent_environ_unchanged_witness:
  "environ (snd (process_audio sample_ext (lit ''/tmp/audio.wav'') (lit ''tiny'') sample_world))
     = environ sample_world \<and>
   (\<exists>call. spawned (snd (process_audio sample_ext (lit ''/tmp/audio.wav'') (lit ''tiny'')
                            sample_world)) = [call] \<and>
      popen_env call (lit ''HOME'') = Some (lit ''/root'') \<and>
      popen_env call (lit ''LD_LIBRARY_PATH'') \<noteq> environ sample_world (lit ''LD_LIBRARY_PATH''))"
proof -
  let ?w' = "snd (process_audio sample_ext (lit ''/tmp/audio.wav'') (lit ''tiny'') sample_world)"
  have e: "spawned sample_world = []" by (simp add: sample_world_def)
  have home: "environ sample_world (lit ''HOME'') = Some (lit ''/root'')"
    by (simp add: sample_world_def)
  have sp: "spawned ?w' = [fst (spawn sample_world (lit ''/tmp/audio.wav'') (lit ''tiny''))]"
    using sample_files by (simp add: process_audio_world spawn_eq e)
  have ld: "popen_env (fst (spawn sample_world (lit ''/tmp/audio.wav'') (lit ''tiny'')))
              (lit ''LD_LIBRARY_PATH'') \<noteq> environ sample_world (lit ''LD_LIBRARY_PATH'')"
    by (simp add: spawn_eq child_env_of_def bin_path_unset [OF sample_root] dict_get_def
        sample_world_def)
  from parent_environ_unchanged [of sample_ext "lit ''/tmp/audio.wav''" "lit ''tiny''" sample_world]
  have env: "environ ?w' = environ sample_world"
    and others: "\<forall>call \<in> set (drop (length (spawned sample_world)) (spawned ?w')).
      \<forall>k. k \<noteq> lit ''LD_LIBRARY_PATH'' \<longrightarrow> popen_env call k = environ sample_world k"
    by blast+
  have mem: "fst (spawn sample_world (lit ''/tmp/audio.wav'') (lit ''tiny''))
      \<in> set (drop (length (spawned sample_world)) (spawned ?w'))"
    unfolding sp e by simp
  have ne: "lit ''HOME'' \<noteq> lit ''LD_LIBRARY_PATH''" by simp
  from others mem ne
  have "popen_env (fst (spawn sample_world (lit ''/tmp/audio.wav'') (lit ''tiny'')))
           (lit ''HOME'') = environ sample_world (lit ''HOME'')"
    by blast
  with home have h: "popen_env (fst (spawn sample_world (lit ''/tmp/audio.wav'') (lit ''tiny'')))
           (lit ''HOME'') = Some (lit ''/root'')"
    by (simp only:)
  from env sp ld h show ?thesis by blast
qed

text \<open>
  C5, as amended. When the child exits with a code other than 0 and its error output
  decodes as UTF-8, \<open>process_audio\<close> raises \<open>Exception\<close> with a message that contains the
  exit code and the decoded error output, or \<open>Unknown error\<close> when the error output is empty.
\<close>

theorem process_audio_nonzero_exit:
  assumes "files w (model m)" and "files w wav"
    and "popen x (fst (spawn w wav m)) (files w) = Inr p"
    and "returncode p \<noteq> 0"
    and "utf8_decode (stderr_data p) = Some e"
  shows "\<exists>msg. process_audio x wav m w = (Inl (Exception msg), snd (spawn w wav m)) \<and>
     msg = lit ''Error processing audio (exit code '' @ str_int (returncode p) @ lit ''): ''
           @ (if stderr_data p = [] then lit ''Unknown error'' else e) \<and>
     sublist (str_int (returncode p)) msg \<and>
     sublist (if stderr_data p = [] then lit ''Unknown error'' else e) msg"
proof -
  let ?t = "if stderr_data p = [] then lit ''Unknown error'' else e"
  let ?msg = "lit ''Error processing audio (exit code '' @ str_int (returncode p) @ lit ''): '' @ ?t"
  have run: "process_audio x wav m w = (Inl (Exception ?msg), snd (spawn w wav m))"
    using assms(3-5) by (simp add: process_audio_run [OF assms(1,2)])
  have c: "sublist (str_int (returncode p)) ?msg"
    by (rule sublist_mid [where p = "lit ''Error processing audio (exit code ''" and q = "lit ''): '' @ ?t"]) simp
  have t: "sublist ?t ?msg"
    by (rule sublist_mid [where p = "lit ''Error processing audio (exit code '' @ str_int (returncode p) @ lit ''): ''" and q = "[]"]) simp
  from run c t show ?thesis by blast
qed
theorem process_audio_nonzero_exit_witness:
  "files sample_world (model (lit ''tiny'')) \<and> files sample_world (lit ''/tmp/audio.wav'') \<and>
   popen failing_ext (fst (spawn sample_world (lit ''/tmp/audio.wav'') (lit ''tiny'')))
       (files sample_world)
     = Inr \<lparr>returncode = 1, stdout_data = [], stderr_data = ''decode failed''\<rparr> \<and>
   utf8_decode ''decode failed'' = Some (lit ''decode failed'') \<and>
   fst (process_audio failing_ext (lit ''/tmp/audio.wav'') (lit ''tiny'') sample_world)
     = Inl (Exception (lit ''Error processing audio (exit code 1): decode failed''))"
proof -
  let ?p = "\<lparr>returncode = 1, stdout_data = [], stderr_data = ''decode failed''\<rparr>"
  have run: "popen failing_ext (fst (spawn sample_world (lit ''/tmp/audio.wav'') (lit ''tiny'')))
       (files sample_world) = Inr ?p"
    by (simp add: failing_ext_def)
  have rc: "returncode ?p \<noteq> 0" by simp
  have dec: "utf8_decode (stderr_data ?p) = Some (lit ''decode failed'')" by simp
  from process_audio_nonzero_exit [OF sample_files run rc dec]
  have "fst (process_audio failing_ext (lit ''/tmp/audio.wav'') (lit ''tiny'') sample_world)
     = Inl (Exception (lit ''Error processing audio (exit code 1): decode failed''))"
    by (auto simp: str_int_def)
  with sample_files run dec show ?thesis by simp
qed

text \<open>
  C5 as stated fails: with the exit code 1 and the single byte \<open>FF\<close> on the error stream,
  decoding the error output raises \<open>UnicodeDecodeError\<close>, and that is what \<open>process_audio\<close>
  ends with.
\<close>

theorem process_audio_nonzero_exit_counterexample:
  "popen garbled_ext (fst (spawn sample_world (lit ''/tmp/audio.wav'') (lit ''tiny'')))
       (files sample_world)
     = Inr \<lparr>returncode = 1, stdout_data = [], stderr_data = [CHR 0xFF]\<rparr> \<and>
   fst (process_audio garbled_ext (lit ''/tmp/audio.wav'') (lit ''tiny'') sample_world)
     = Inl UnicodeDecodeError"
  by (subst process_audio_run [OF sample_files]) (simp add: garbled_ext_def)

text \<open>
  C1, as amended. When both files exist, the child exits with 0 and its output decodes as
  UTF-8, \<open>process_audio\<close> returns the decoded output stripped, with the occurrences of
  \<open>[BLANK_AUDIO]\<close> removed in one pass from the left, and stripped again. The result has no
  leading or trailing whitespace. It contains no \<open>[BLANK_AUDIO]\<close> unless the output holds a
  \<open>[BLANK_AUDIO]\<close> directly behind a non-empty proper prefix of \<open>[BLANK_AUDIO]\<close>, as in
  \<open>[BLANK_[BLANK_AUDIO]\<close>. It is the empty string, returned normally, when the output is
  \<open>[BLANK_AUDIO]\<close> any number of times with whitespace before and after.
\<close>

theorem process_audio_transcript:
  assumes "files w (model m)" and "files w wav"
    and "popen x (fst (spawn w wav m)) (files w) = Inr p" and "returncode p = 0"
    and "utf8_decode (stdout_data p) = Some s"
  shows "\<exists>r. process_audio x wav m w = (Inr r, snd (spawn w wav m)) \<and>
       r = strip (replace (strip s) (lit ''[BLANK_AUDIO]'') []) \<and>
       (r \<noteq> [] \<longrightarrow> \<not> isspace (hd r) \<and> \<not> isspace (last r)) \<and>
       (\<not> (\<exists>q. q \<noteq> [] \<and> strict_prefix q (lit ''[BLANK_AUDIO]'')
               \<and> sublist (q @ lit ''[BLANK_AUDIO]'') s)
          \<longrightarrow> \<not> sublist (lit ''[BLANK_AUDIO]'') r) \<and>
       (\<forall>pre n post. s = pre @ concat (replicate n (lit ''[BLANK_AUDIO]'')) @ post
            \<and> (\<forall>c\<in>set (pre @ post). isspace c) \<longrightarrow> r = [])"
proof -
  let ?r = "strip (replace (strip s) (lit ''[BLANK_AUDIO]'') [])"
  have run: "process_audio x wav m w = (Inr ?r, snd (spawn w wav m))"
    using assms(3-5) by (simp add: process_audio_run [OF assms(1,2)])
  have ends: "?r \<noteq> [] \<longrightarrow> \<not> isspace (hd ?r) \<and> \<not> isspace (last ?r)"
    using strip_ends by blast
  have tok: "\<not> (\<exists>q. q \<noteq> [] \<and> strict_prefix q (lit ''[BLANK_AUDIO]'')
               \<and> sublist (q @ lit ''[BLANK_AUDIO]'') s)
          \<longrightarrow> \<not> sublist (lit ''[BLANK_AUDIO]'') ?r"
    using no_marker_left [of s] by blast
  have only: "\<forall>pre n post. s = pre @ concat (replicate n (lit ''[BLANK_AUDIO]'')) @ post
            \<and> (\<forall>c\<in>set (pre @ post). isspace c) \<longrightarrow> ?r = []"
  proof (intro allI impI, elim conjE)
    fix pre n post
    assume s: "s = pre @ concat (replicate n (lit ''[BLANK_AUDIO]'')) @ post"
      and ws: "\<forall>c\<in>set (pre @ post). isspace c"
    have "strip (replace (strip (pre @ concat (replicate n (lit ''[BLANK_AUDIO]'')) @ post))
            (lit ''[BLANK_AUDIO]'') []) = []"
      using ws by (rule only_copies_empty) (simp_all add: isspace_def)
    then show "?r = []" unfolding s .
  qed
  from run ends tok only show ?thesis by blast
qed

theorem process_audio_transcript_witness:
  "files sample_world (model (lit ''tiny'')) \<and> files sample_world (lit ''/tmp/audio.wav'') \<and>
   popen music_ext (fst (spawn sample_world (lit ''/tmp/audio.wav'') (lit ''tiny'')))
       (files sample_world)
     = Inr \<lparr>returncode = 0, stdout_data = ''[Music] [BLANK_AUDIO]\<newline>'', stderr_data = []\<rparr> \<and>
   fst (process_audio music_ext (lit ''/tmp/audio.wav'') (lit ''tiny'') sample_world)
     = Inr (lit ''[Music]'') \<and>
   \<not> sublist (lit ''[BLANK_AUDIO]'') (lit ''[Music]'') \<and>
   popen silent_ext (fst (spawn sample_world (lit ''/tmp/audio.wav'') (lit ''tiny'')))
       (files sample_world)
     = Inr \<lparr>returncode = 0, stdout_data = ''[BLANK_AUDIO][BLANK_AUDIO]\<newline>'',
            stderr_data = []\<rparr> \<and>
   fst (process_audio silent_ext (lit ''/tmp/audio.wav'') (lit ''tiny'') sample_world) = Inr []"
proof -
  let ?p = "\<lparr>returncode = 0, stdout_data = ''[Music] [BLANK_AUDIO]\<newline>'', stderr_data = []\<rparr>"
  let ?s = "lit ''[Music] [BLANK_AUDIO]\<newline>''"
  have run: "popen music_ext (fst (spawn sample_world (lit ''/tmp/audio.wav'') (lit ''tiny'')))
       (files sample_world) = Inr ?p"
    by (simp add: music_ext_def)
  have rc: "returncode ?p = 0" by simp
  have dec: "utf8_decode (stdout_data ?p) = Some ?s" by simp
  from process_audio_transcript [OF sample_files run rc dec] music_not_joined
  obtain r where r: "process_audio music_ext (lit ''/tmp/audio.wav'') (lit ''tiny'') sample_world
        = (Inr r, snd (spawn sample_world (lit ''/tmp/audio.wav'') (lit ''tiny'')))"
      "r = strip (replace (strip ?s) (lit ''[BLANK_AUDIO]'') [])"
      "\<not> sublist (lit ''[BLANK_AUDIO]'') r"
    by blast
  have "strip (replace (strip ?s) (lit ''[BLANK_AUDIO]'') []) = lit ''[Music]''"
    by (simp add: strip_def lstrip_def rstrip_def replace_def isspace_def)
  with r have music: "fst (process_audio music_ext (lit ''/tmp/audio.wav'') (lit ''tiny'')
      sample_world) = Inr (lit ''[Music]'')" "\<not> sublist (lit ''[BLANK_AUDIO]'') (lit ''[Music]'')"
    by simp_all
  let ?q = "\<lparr>returncode = 0, stdout_data = ''[BLANK_AUDIO][BLANK_AUDIO]\<newline>'',
            stderr_data = []\<rparr>"
  let ?t = "lit ''[BLANK_AUDIO][BLANK_AUDIO]\<newline>''"
  have run': "popen silent_ext (fst (spawn sample_world (lit ''/tmp/audio.wav'') (lit ''tiny'')))
       (files sample_world) = Inr ?q"
    by (simp add: silent_ext_def)
  have rc': "returncode ?q = 0" by simp
  have dec': "utf8_decode (stdout_data ?q) = Some ?t" by simp
  have shape: "?t = [] @ concat (replicate (Suc (Suc 0)) (lit ''[BLANK_AUDIO]'')) @ [10]
      \<and> (\<forall>c\<in>set ([] @ [10]). isspace c)"
    by (simp add: isspace_def)
  from process_audio_transcript [OF sample_files run' rc' dec'] shape
  have "fst (process_audio silent_ext (lit ''/tmp/audio.wav'') (lit ''tiny'') sample_world)
      = Inr []"
    by (metis fst_conv)
  with music run run' sample_files show ?thesis by simp
qed

text \<open>
  C1 as stated fails: from the output \<open>[BLANK_[BLANK_AUDIO]AUDIO]\<close> the one pass removes the
  inner occurrence, and what is returned is \<open>[BLANK_AUDIO]\<close> itself.
\<close>

theorem process_audio_transcript_counterexample:
  "popen nested_ext (fst (spawn sample_world (lit ''/tmp/audio.wav'') (lit ''tiny'')))
       (files sample_world)
     = Inr \<lparr>returncode = 0, stdout_data = ''[BLANK_[BLANK_AUDIO]AUDIO]'', stderr_data = []\<rparr> \<and>
   utf8_decode ''[BLANK_[BLANK_AUDIO]AUDIO]'' = Some (lit ''[BLANK_[BLANK_AUDIO]AUDIO]'') \<and>
   fst (process_audio nested_ext (lit ''/tmp/audio.wav'') (lit ''tiny'') sample_world)
     = Inr (lit ''[BLANK_AUDIO]'') \<and>
   sublist (lit ''[BLANK_AUDIO]'') (lit ''[BLANK_AUDIO]'')"
  by (subst process_audio_run [OF sample_files])
     (simp add: nested_ext_def strip_def lstrip_def rstrip_def replace_def isspace_def)

section \<open>Properties of \<open>lambda_handler\<close>\<close>

subsection \<open>Reading the event\<close>

lemma getitem_walk:
  "and_then (getitem_key r a) (\<lambda>u. and_then (getitem_key u b) (\<lambda>v. getitem_key v c))
     = raised (walk r [a, b, c])"
  by (simp add: and_then_def getitem_key_def raised_def split: json.splits option.splits)

lemma first_record:
  "getitem_int (JArr rs) 0 = (if rs = [] then Inl IndexError else Inr (hd rs))"
  by (cases rs) (simp_all add: getitem_int_def in_range_def position_def)

lemma bucket_name_walk:
  assumes "getitem_key event (lit ''Records'') = Inr (JArr rs)"
  shows "bucket_name event =
     (if rs = [] then Inl IndexError
      else raised (walk (hd rs) [lit ''s3'', lit ''bucket'', lit ''name'']))"
  unfolding bucket_name_def assms
  by (simp only: and_then_def sum.case first_record getitem_walk [unfolded and_then_def] if_distrib [of "case_sum _ _"] cong: if_cong)

lemma object_key_walk:
  assumes "getitem_key event (lit ''Records'') = Inr (JArr rs)"
  shows "object_key event =
     (if rs = [] then Inl IndexError
      else raised (walk (hd rs) [lit ''s3'', lit ''object'', lit ''key'']))"
  unfolding object_key_def assms
  by (simp only: and_then_def sum.case first_record getitem_walk [unfolded and_then_def] if_distrib [of "case_sum _ _"] cong: if_cong)

text \<open>
  C8, as amended. When the record list of the event is empty, or the first record has no
  bucket name or no object key at the end of the path \<open>s3\<close>, \<open>bucket\<close>, \<open>name\<close> or \<open>s3\<close>,
  \<open>object\<close>, \<open>key\<close>, \<open>lambda_handler\<close> ends with the error of the first subscription that
  fails: \<open>IndexError\<close> for no record, \<open>KeyError\<close> for a key that an object on the path does
  not hold, \<open>TypeError\<close> for a value on the path that is not an object. This holds
  whatever the collaborators would do, and the world is untouched: no default stands in
  for the missing value and nothing is downloaded, run or stored.
\<close>

theorem lambda_handler_missing_fields:
  assumes "getitem_key event (lit ''Records'') = Inr (JArr rs)"
    and "rs = [] \<or>
         (\<forall>b. walk (hd rs) [lit ''s3'', lit ''bucket'', lit ''name''] \<noteq> Found b) \<or>
         (\<forall>k. walk (hd rs) [lit ''s3'', lit ''object'', lit ''key''] \<noteq> Found k)"
  shows "lambda_handler x event w =
     (Inl (if rs = [] then IndexError
           else if walk (hd rs) [lit ''s3'', lit ''bucket'', lit ''name''] = Missing then KeyError
           else if walk (hd rs) [lit ''s3'', lit ''bucket'', lit ''name''] = NotObject then TypeError
           else if walk (hd rs) [lit ''s3'', lit ''object'', lit ''key''] = Missing then KeyError
           else TypeError), w)"
proof (cases "rs = []")
  case True
  with bucket_name_walk [OF assms(1)] have "bucket_name event = Inl IndexError" by simp
  with True show ?thesis by (simp add: lambda_handler_def)
next
  case False
  let ?bn = "walk (hd rs) [lit ''s3'', lit ''bucket'', lit ''name'']"
  let ?ok = "walk (hd rs) [lit ''s3'', lit ''object'', lit ''key'']"
  from False bucket_name_walk [OF assms(1)] have bn: "bucket_name event = raised ?bn"
    by (simp only: if_False)
  from False object_key_walk [OF assms(1)] have ok: "object_key event = raised ?ok"
    by (simp only: if_False)
  show ?thesis
  proof (cases ?bn)
    case Missing
    with bn have "bucket_name event = Inl KeyError" by (simp add: raised_def)
    with False Missing show ?thesis by (simp add: lambda_handler_def)
  next
    case NotObject
    with bn have "bucket_name event = Inl TypeError" by (simp add: raised_def)
    with False NotObject show ?thesis by (simp add: lambda_handler_def)
  next
    case (Found b)
    with bn have b: "bucket_name event = Inr b" by (simp add: raised_def)
    from Found False assms(2) have nf: "\<forall>k. ?ok \<noteq> Found k" by simp
    show ?thesis
    proof (cases ?ok)
      case Missing
      with ok have "object_key event = Inl KeyError" by (simp add: raised_def)
      with b False Found Missing show ?thesis by (simp add: lambda_handler_def)
    next
      case NotObject
      with ok have "object_key event = Inl TypeError" by (simp add: raised_def)
      with b False Found NotObject show ?thesis by (simp add: lambda_handler_def)
    next
      case k: (Found k)
      with nf show ?thesis by simp
    qed
  qed
qed

theorem lambda_handler_missing_fields_witness:
  "getitem_key event_without_records (lit ''Records'') = Inr (JArr []) \<and>
   lambda_handler sample_ext event_without_records sample_world = (Inl IndexError, sample_world) \<and>
   walk (JObj [(lit ''s3'', JObj [(lit ''bucket'', JObj [(lit ''name'', JStr (lit ''b''))]),
                 (lit ''object'', JObj [(lit ''size'', JNumber (lit ''1024''))])])])
        [lit ''s3'', lit ''object'', lit ''key''] = Missing \<and>
   lambda_handler sample_ext event_without_key sample_world = (Inl KeyError, sample_world) \<and>
   walk JNull [lit ''s3'', lit ''bucket'', lit ''name''] = NotObject \<and>
   lambda_handler sample_ext event_null_record sample_world = (Inl TypeError, sample_world)"
proof -
  let ?r = "JObj [(lit ''s3'', JObj [(lit ''bucket'', JObj [(lit ''name'', JStr (lit ''b''))]),
                 (lit ''object'', JObj [(lit ''size'', JNumber (lit ''1024''))])])]"
  have r0: "getitem_key event_without_records (lit ''Records'') = Inr (JArr [])"
    by (simp add: event_without_records_def getitem_key_def)
  have e0: "lambda_handler sample_ext event_without_records sample_world
      = (Inl IndexError, sample_world)"
    using lambda_handler_missing_fields [OF r0, of sample_ext sample_world] by simp
  have r1: "getitem_key event_without_key (lit ''Records'') = Inr (JArr [?r])"
    by (simp add: event_without_key_def event_of_def getitem_key_def)
  have n: "walk ?r [lit ''s3'', lit ''bucket'', lit ''name''] = Found (JStr (lit ''b''))"
    by simp
  have k: "walk ?r [lit ''s3'', lit ''object'', lit ''key''] = Missing"
    by simp
  have h1: "[?r] = [] \<or>
         (\<forall>b. walk (hd [?r]) [lit ''s3'', lit ''bucket'', lit ''name''] \<noteq> Found b) \<or>
         (\<forall>k. walk (hd [?r]) [lit ''s3'', lit ''object'', lit ''key''] \<noteq> Found k)"
    using k by simp
  from lambda_handler_missing_fields [OF r1 h1, of sample_ext sample_world]
  have e1: "lambda_handler sample_ext event_without_key sample_world = (Inl KeyError, sample_world)"
    by simp
  have r2: "getitem_key event_null_record (lit ''Records'') = Inr (JArr [JNull])"
    by (simp add: event_null_record_def getitem_key_def)
  have t: "walk JNull [lit ''s3'', lit ''bucket'', lit ''name''] = NotObject"
    by simp
  have h2: "[JNull] = [] \<or>
         (\<forall>b. walk (hd [JNull]) [lit ''s3'', lit ''bucket'', lit ''name''] \<noteq> Found b) \<or>
         (\<forall>k. walk (hd [JNull]) [lit ''s3'', lit ''object'', lit ''key''] \<noteq> Found k)"
    by simp
  from lambda_handler_missing_fields [OF r2 h2, of sample_ext sample_world]
  have e2: "lambda_handler sample_ext event_null_record sample_world = (Inl TypeError, sample_world)"
    by simp
  from r0 e0 k e1 t e2 show ?thesis by blast
qed

text \<open>
  C8 as stated fails: for an event whose only record is \<open>null\<close> the first record has neither
  field, and the handler ends with \<open>TypeError\<close>, which is neither a key nor an index error.
\<close>

theorem lambda_handler_missing_fields_counterexample:
  "getitem_key event_null_record (lit ''Records'') = Inr (JArr [JNull]) \<and>
   lambda_handler sample_ext event_null_record sample_world = (Inl TypeError, sample_world)"
  by (simp add: event_null_record_def lambda_handler_def bucket_name_def and_then_def
      getitem_key_def getitem_int_def in_range_def position_def)

subsection \<open>Publishing the transcript\<close>













section \<open>The command line of the child\<close>

















end
